theory Spec2Isabelle
  imports Main
begin

section \<open>Values, maps and failures\<close>

text \<open>
  A Go \<^verbatim>\<open>interface{}\<close> value, as far as the payloads and the context map of
  \<^verbatim>\<open>ecommerce/google_shopping.go\<close> hold one: nil, a string (the named string types
  \<^verbatim>\<open>oxylabs.Domain\<close>, \<^verbatim>\<open>oxylabs.UserAgent\<close>, \<^verbatim>\<open>oxylabs.Render\<close> and \<^verbatim>\<open>oxylabs.Locale\<close>
  are stored as their underlying string), an int, a bool, a slice, or a map literal
  (kept as an association list in the order of the literal). Go's \<^verbatim>\<open>int\<close> is modelled
  by \<open>int\<close>: the code only compares ints with 0 and stores the constant 1, so no
  arithmetic can wrap.
\<close>

datatype gvalue =
    VNil
  | VString string
  | VInt int
  | VBool bool
  | VList "gvalue list"
  | VMap "(string \<times> gvalue) list"

text \<open>\<^verbatim>\<open>oxylabs.ContextOption\<close> is \<^verbatim>\<open>map[string]interface{}\<close>; so is a payload.\<close>

type_synonym ContextOption = "string \<rightharpoonup> gvalue"

type_synonym payload = "string \<rightharpoonup> gvalue"

text \<open>Reading \<^verbatim>\<open>m[k]\<close>: a missing key reads as the zero value of \<^verbatim>\<open>interface{}\<close>, nil.\<close>

definition index :: "(string \<rightharpoonup> gvalue) \<Rightarrow> string \<Rightarrow> gvalue" where
  "index m k = (case m k of None \<Rightarrow> VNil | Some v \<Rightarrow> v)"

text \<open>
  A failed type assertion \<^verbatim>\<open>v.(T)\<close> panics with an interface conversion error; the
  panic records the value and the asserted type.
\<close>

datatype panic = InterfaceConversion gvalue string

definition assert_string :: "gvalue \<Rightarrow> panic + string" where
  "assert_string v = (case v of VString s \<Rightarrow> Inr s | _ \<Rightarrow> Inl (InterfaceConversion v ''string''))"

definition assert_int :: "gvalue \<Rightarrow> panic + int" where
  "assert_int v = (case v of VInt i \<Rightarrow> Inr i | _ \<Rightarrow> Inl (InterfaceConversion v ''int''))"

text \<open>
  The error values of the package, one constructor per \<^verbatim>\<open>fmt.Errorf\<close> of the source;
  an error handed on unchanged from a function outside the sources carries that
  function's message.
\<close>

datatype error =
    InvalidUserAgent string
  | InvalidRender string
  | PagesNotPositive
  | InvalidSortBy gvalue
  | NegativePrice
  | InvalidParseInstructions string
  | MarshalError string
  | UrlError string
  | ReqError string
  | RespError string

text \<open>The errors \<^verbatim>\<open>checkParameterValidity\<close> and \<^verbatim>\<open>ValidateUrl\<close> produce.\<close>

fun validation_error :: "error \<Rightarrow> bool" where
  "validation_error (InvalidUserAgent _) = True"
| "validation_error (InvalidRender _) = True"
| "validation_error PagesNotPositive = True"
| "validation_error (InvalidSortBy _) = True"
| "validation_error NegativePrice = True"
| "validation_error (InvalidParseInstructions _) = True"
| "validation_error (UrlError _) = True"
| "validation_error _ = False"

text \<open>A call either panics or returns an error (\<open>Inl\<close>), or returns its value.\<close>

datatype failure = Panic panic | Error error

section \<open>Package internal: constants and default setters\<close>

text \<open>\<^verbatim>\<open>time.Duration\<close> counts nanoseconds in an int64.\<close>

type_synonym Duration = int

definition Second :: Duration where
  "Second = 1000000000"







definition DefaultTimeout :: Duration where
  "DefaultTimeout = 50 * Second"

definition DefaultPollInterval :: Duration where
  "DefaultPollInterval = 2 * Second"

text \<open>
  The declarations of package \<^verbatim>\<open>oxylabs\<close>, the helpers \<^verbatim>\<open>internal.ValidateUrl\<close>,
  \<^verbatim>\<open>internal.InList\<close>, \<^verbatim>\<open>(*internal.Client).Req\<close> and \<^verbatim>\<open>GetResp\<close>, and
  \<^verbatim>\<open>json.Marshal\<close> are not among the sources. They are parameters of the model:
  \<open>'h\<close> is the type of an HTTP response, \<open>'r\<close> the type \<^verbatim>\<open>Resp\<close>; a function that
  returns an \<^verbatim>\<open>error\<close> returns its message, \<open>None\<close> for nil.
\<close>

datatype go_context = Background | WithTimeout go_context Duration

record ('h, 'r) env =
  UA_DESKTOP :: string
  DOMAIN_COM :: string
  GoogleShoppingUrl :: string
  GoogleShoppingSearch :: string
  GoogleShoppingProduct :: string
  GoogleShoppingPricing :: string
  IsUserAgentValid :: "string \<Rightarrow> bool"
  IsRenderValid :: "string \<Rightarrow> bool"
  ValidateParseInstructions :: "(string \<times> gvalue) list \<Rightarrow> string option"
  ValidateUrl :: "string \<Rightarrow> string \<Rightarrow> string option"
  InList :: "string \<Rightarrow> string list \<Rightarrow> bool"
  json_Marshal :: "payload \<Rightarrow> string + string"
  Req :: "go_context \<Rightarrow> string \<Rightarrow> string \<Rightarrow> string + 'h"
  GetResp :: "'h \<Rightarrow> bool \<Rightarrow> bool \<Rightarrow> string + 'r"



text \<open>
  The setters take a pointer and assign through it; the model returns the value the
  pointer holds afterwards. (In a scrape function the pointer leads into the caller's
  option struct, which therefore holds the defaults after the call; the model follows
  the struct inside the call only.)
\<close>

definition SetDefaultDomain :: "('h, 'r) env \<Rightarrow> string \<Rightarrow> string" where
  "SetDefaultDomain e domain = (if domain = '''' then DOMAIN_COM e else domain)"

definition SetDefaultStartPage :: "int \<Rightarrow> int" where
  "SetDefaultStartPage startPage = (if startPage = 0 then 1 else startPage)"

definition SetDefaultPages :: "int \<Rightarrow> int" where
  "SetDefaultPages pages = (if pages = 0 then 1 else pages)"


definition SetDefaultUserAgent :: "('h, 'r) env \<Rightarrow> string \<Rightarrow> string" where
  "SetDefaultUserAgent e userAgent = (if userAgent = '''' then UA_DESKTOP e else userAgent)"

definition SetDefaultHotelOccupancy :: "ContextOption \<Rightarrow> ContextOption" where
  "SetDefaultHotelOccupancy ctx =
     (if index ctx ''hotel_occupancy'' = VNil then ctx(''hotel_occupancy'' \<mapsto> VInt 2) else ctx)"

definition SetDefaultSortBy :: "ContextOption \<Rightarrow> ContextOption" where
  "SetDefaultSortBy ctx =
     (if index ctx ''sort_by'' = VNil then ctx(''sort_by'' \<mapsto> VString ''r'') else ctx)"

definition SetDefaultHttpMethod :: "ContextOption \<Rightarrow> ContextOption" where
  "SetDefaultHttpMethod ctx =
     (if index ctx ''http_method'' = VNil then ctx(''http_method'' \<mapsto> VString ''get'') else ctx)"


section \<open>Package serp: client construction\<close>








section \<open>Package ecommerce: Google Shopping\<close>

definition AcceptedSortByParameters :: "string list" where
  "AcceptedSortByParameters = [''r'', ''p'', ''rv'', ''pd'']"

text \<open>
  What a scrape function has in hand when it reaches \<^verbatim>\<open>json.Marshal\<close>: the payload map,
  \<^verbatim>\<open>opt.Parse\<close> and \<^verbatim>\<open>customParserFlag\<close>.
\<close>

record prepared =
  payload :: payload
  parse :: bool
  customParserFlag :: bool

text \<open>
  What a call did: the requests \<^verbatim>\<open>c.C.Req\<close> was asked to send (context, body, method),
  in order, and how the call ended.
\<close>

record 'r call =
  requests :: "(go_context \<times> string \<times> string) list"
  outcome :: "failure + 'r"

text \<open>
  \<^verbatim>\<open>opt := &T{}; if len(opts) > 0 && opts[len(opts)-1] != nil { opt = opts[len(opts)-1] }\<close>,
  the first statement of every \<^verbatim>\<open>Ctx\<close> function; \<open>None\<close> is a nil pointer and
  \<open>zero\<close> the zero-valued struct.
\<close>

definition effective_opt :: "'a \<Rightarrow> 'a option list \<Rightarrow> 'a" where
  "effective_opt zero opts =
     (if length opts > 0
      then (case opts ! (length opts - 1) of Some opt \<Rightarrow> opt | None \<Rightarrow> zero)
      else zero)"

text \<open>
  The tail every \<^verbatim>\<open>Ctx\<close> function repeats: \<^verbatim>\<open>json.Marshal\<close>, \<^verbatim>\<open>c.C.Req(ctx, jsonPayload, "POST")\<close>,
  \<^verbatim>\<open>GetResp(httpResp, opt.Parse, customParserFlag)\<close>, each error returned at once.
\<close>

definition send :: "('h, 'r) env \<Rightarrow> go_context \<Rightarrow> prepared \<Rightarrow> 'r call" where
  "send e ctx p =
     (case json_Marshal e (payload p) of
        Inl m \<Rightarrow> \<lparr>requests = [], outcome = Inl (Error (MarshalError m))\<rparr>
      | Inr jsonPayload \<Rightarrow>
          (case Req e ctx jsonPayload ''POST'' of
             Inl m \<Rightarrow>
               \<lparr>requests = [(ctx, jsonPayload, ''POST'')], outcome = Inl (Error (ReqError m))\<rparr>
           | Inr httpResp \<Rightarrow>
               \<lparr>requests = [(ctx, jsonPayload, ''POST'')],
                outcome =
                  (case GetResp e httpResp (parse p) (customParserFlag p) of
                     Inl m \<Rightarrow> Inl (Error (RespError m))
                   | Inr resp \<Rightarrow> Inr resp)\<rparr>))"

text \<open>A call that ends before \<^verbatim>\<open>json.Marshal\<close> has sent nothing.\<close>

definition run :: "('h, 'r) env \<Rightarrow> go_context \<Rightarrow> failure + prepared \<Rightarrow> 'r call" where
  "run e ctx prep =
     (case prep of
        Inl f \<Rightarrow> \<lparr>requests = [], outcome = Inl f\<rparr>
      | Inr p \<Rightarrow> send e ctx p)"

subsection \<open>ScrapeGoogleShoppingUrl\<close>

record GoogleShoppingUrlOpts =
  UserAgent :: string
  Render :: string
  CallbackUrl :: string
  GeoLocation :: string
  Parse :: bool
  ParseInstructions :: "(string \<times> gvalue) list option"
  PollInterval :: Duration

definition GoogleShoppingUrlOpts_zero :: GoogleShoppingUrlOpts where
  "GoogleShoppingUrlOpts_zero =
     \<lparr>GoogleShoppingUrlOpts.UserAgent = '''',
      GoogleShoppingUrlOpts.Render = '''',
      GoogleShoppingUrlOpts.CallbackUrl = '''',
      GoogleShoppingUrlOpts.GeoLocation = '''',
      GoogleShoppingUrlOpts.Parse = False,
      GoogleShoppingUrlOpts.ParseInstructions = None,
      GoogleShoppingUrlOpts.PollInterval = 0\<rparr>"

definition GoogleShoppingUrlOpts_checkParameterValidity ::
  "('h, 'r) env \<Rightarrow> GoogleShoppingUrlOpts \<Rightarrow> error option" where
  "GoogleShoppingUrlOpts_checkParameterValidity e opt =
     (if \<not> IsUserAgentValid e (GoogleShoppingUrlOpts.UserAgent opt)
      then Some (InvalidUserAgent (GoogleShoppingUrlOpts.UserAgent opt))
      else if GoogleShoppingUrlOpts.Render opt \<noteq> '''' \<and>
              \<not> IsRenderValid e (GoogleShoppingUrlOpts.Render opt)
      then Some (InvalidRender (GoogleShoppingUrlOpts.Render opt))
      else (case GoogleShoppingUrlOpts.ParseInstructions opt of
              None \<Rightarrow> None
            | Some pi \<Rightarrow>
                (case ValidateParseInstructions e pi of
                   Some m \<Rightarrow> Some (InvalidParseInstructions m)
                 | None \<Rightarrow> None)))"

text \<open>\<^verbatim>\<open>ScrapeGoogleShoppingUrlCtx\<close> up to the payload and \<^verbatim>\<open>customParserFlag\<close> (lines 69-106).\<close>

definition ScrapeGoogleShoppingUrlCtx_payload ::
  "('h, 'r) env \<Rightarrow> string \<Rightarrow> GoogleShoppingUrlOpts option list \<Rightarrow> failure + prepared" where
  "ScrapeGoogleShoppingUrlCtx_payload e url opts =
     (case ValidateUrl e url ''shopping.google'' of
        Some m \<Rightarrow> Inl (Error (UrlError m))
      | None \<Rightarrow>
          (let opt0 = effective_opt GoogleShoppingUrlOpts_zero opts;
               opt = opt0\<lparr>GoogleShoppingUrlOpts.UserAgent :=
                            SetDefaultUserAgent e (GoogleShoppingUrlOpts.UserAgent opt0)\<rparr>
           in case GoogleShoppingUrlOpts_checkParameterValidity e opt of
                Some err \<Rightarrow> Inl (Error err)
              | None \<Rightarrow>
                  (let payload0 =
                         [''source'' \<mapsto> VString (GoogleShoppingUrl e),
                          ''url'' \<mapsto> VString url,
                          ''user_agent_type'' \<mapsto> VString (GoogleShoppingUrlOpts.UserAgent opt),
                          ''render'' \<mapsto> VString (GoogleShoppingUrlOpts.Render opt),
                          ''callback_url'' \<mapsto> VString (GoogleShoppingUrlOpts.CallbackUrl opt),
                          ''geo_location'' \<mapsto> VString (GoogleShoppingUrlOpts.GeoLocation opt),
                          ''parse'' \<mapsto> VBool (GoogleShoppingUrlOpts.Parse opt)]
                   in case GoogleShoppingUrlOpts.ParseInstructions opt of
                        None \<Rightarrow>
                          Inr \<lparr>payload = payload0,
                               parse = GoogleShoppingUrlOpts.Parse opt,
                               customParserFlag = False\<rparr>
                      | Some pi \<Rightarrow>
                          Inr \<lparr>payload = payload0(''parsing_instructions'' \<mapsto> VMap pi),
                               parse = GoogleShoppingUrlOpts.Parse opt,
                               customParserFlag = True\<rparr>)))"

definition ScrapeGoogleShoppingUrlCtx ::
  "('h, 'r) env \<Rightarrow> go_context \<Rightarrow> string \<Rightarrow> GoogleShoppingUrlOpts option list \<Rightarrow> 'r call" where
  "ScrapeGoogleShoppingUrlCtx e ctx url opts =
     run e ctx (ScrapeGoogleShoppingUrlCtx_payload e url opts)"

definition ScrapeGoogleShoppingUrl ::
  "('h, 'r) env \<Rightarrow> string \<Rightarrow> GoogleShoppingUrlOpts option list \<Rightarrow> 'r call" where
  "ScrapeGoogleShoppingUrl e url opts =
     ScrapeGoogleShoppingUrlCtx e (WithTimeout Background DefaultTimeout) url opts"

subsection \<open>ScrapeGoogleShoppingSearch\<close>

text \<open>
  A context modifier is a caller's function that writes into the context map; the model
  takes it as the map it leaves behind.
\<close>

record GoogleShoppingSearchOpts =
  Domain :: string
  StartPage :: int
  Pages :: int
  Locale :: string
  ResultsLanguage :: string
  GeoLocation :: string
  UserAgent :: string
  Render :: string
  CallbackURL :: string
  Parse :: bool
  ParseInstructions :: "(string \<times> gvalue) list option"
  PollInterval :: Duration
  Context :: "(ContextOption \<Rightarrow> ContextOption) list"

definition GoogleShoppingSearchOpts_zero :: GoogleShoppingSearchOpts where
  "GoogleShoppingSearchOpts_zero =
     \<lparr>GoogleShoppingSearchOpts.Domain = '''',
      GoogleShoppingSearchOpts.StartPage = 0,
      GoogleShoppingSearchOpts.Pages = 0,
      GoogleShoppingSearchOpts.Locale = '''',
      GoogleShoppingSearchOpts.ResultsLanguage = '''',
      GoogleShoppingSearchOpts.GeoLocation = '''',
      GoogleShoppingSearchOpts.UserAgent = '''',
      GoogleShoppingSearchOpts.Render = '''',
      GoogleShoppingSearchOpts.CallbackURL = '''',
      GoogleShoppingSearchOpts.Parse = False,
      GoogleShoppingSearchOpts.ParseInstructions = None,
      GoogleShoppingSearchOpts.PollInterval = 0,
      GoogleShoppingSearchOpts.Context = []\<rparr>"

text \<open>
  The condition of line 160, \<^verbatim>\<open>ctx["sort_by"] != nil && !internal.InList(ctx["sort_by"].(string), ...)\<close>:
  its value, or the panic of the type assertion. \<^verbatim>\<open>&&\<close> does not evaluate its right
  operand when the left one is false.
\<close>

definition sort_by_condition :: "('h, 'r) env \<Rightarrow> ContextOption \<Rightarrow> panic + bool" where
  "sort_by_condition e ctx =
     (if index ctx ''sort_by'' \<noteq> VNil
      then (case assert_string (index ctx ''sort_by'') of
              Inl p \<Rightarrow> Inl p
            | Inr s \<Rightarrow> Inr (\<not> InList e s AcceptedSortByParameters))
      else Inr False)"

text \<open>
  The condition of lines 164-165,
  \<^verbatim>\<open>(ctx["min_price"] != nil || ctx["max_price"] != nil) && (ctx["min_price"].(int) < 0 || ctx["max_price"].(int) < 0)\<close>:
  \<^verbatim>\<open>||\<close> does not evaluate its right operand when the left one is true.
\<close>

definition price_condition :: "ContextOption \<Rightarrow> panic + bool" where
  "price_condition ctx =
     (if index ctx ''min_price'' \<noteq> VNil \<or> index ctx ''max_price'' \<noteq> VNil
      then (case assert_int (index ctx ''min_price'') of
              Inl p \<Rightarrow> Inl p
            | Inr lo \<Rightarrow>
                if lo < 0 then Inr True
                else (case assert_int (index ctx ''max_price'') of
                        Inl p \<Rightarrow> Inl p
                      | Inr hi \<Rightarrow> Inr (hi < 0)))
      else Inr False)"

text \<open>The method returns an \<^verbatim>\<open>error\<close> (\<open>None\<close> is nil) or panics (\<open>Inl\<close>).\<close>

definition GoogleShoppingSearchOpts_checkParameterValidity ::
  "('h, 'r) env \<Rightarrow> GoogleShoppingSearchOpts \<Rightarrow> ContextOption \<Rightarrow> panic + error option" where
  "GoogleShoppingSearchOpts_checkParameterValidity e opt ctx =
     (if \<not> IsUserAgentValid e (GoogleShoppingSearchOpts.UserAgent opt)
      then Inr (Some (InvalidUserAgent (GoogleShoppingSearchOpts.UserAgent opt)))
      else if GoogleShoppingSearchOpts.Render opt \<noteq> '''' \<and>
              \<not> IsRenderValid e (GoogleShoppingSearchOpts.Render opt)
      then Inr (Some (InvalidRender (GoogleShoppingSearchOpts.Render opt)))
      else if GoogleShoppingSearchOpts.Pages opt \<le> 0 \<or> GoogleShoppingSearchOpts.StartPage opt \<le> 0
      then Inr (Some PagesNotPositive)
      else (case sort_by_condition e ctx of
              Inl p \<Rightarrow> Inl p
            | Inr True \<Rightarrow> Inr (Some (InvalidSortBy (index ctx ''sort_by'')))
            | Inr False \<Rightarrow>
                (case price_condition ctx of
                   Inl p \<Rightarrow> Inl p
                 | Inr True \<Rightarrow> Inr (Some NegativePrice)
                 | Inr False \<Rightarrow>
                     (case GoogleShoppingSearchOpts.ParseInstructions opt of
                        None \<Rightarrow> Inr None
                      | Some pi \<Rightarrow>
                          (case ValidateParseInstructions e pi of
                             Some m \<Rightarrow> Inr (Some (InvalidParseInstructions m))
                           | None \<Rightarrow> Inr None)))))"

text \<open>The loop of lines 206-208: each modifier in turn, on the same map.\<close>

fun apply_modifiers ::
  "ContextOption \<Rightarrow> (ContextOption \<Rightarrow> ContextOption) list \<Rightarrow> ContextOption" where
  "apply_modifiers context [] = context"
| "apply_modifiers context (modifier # rest) = apply_modifiers (modifier context) rest"

text \<open>The options and the context map as \<^verbatim>\<open>checkParameterValidity\<close> sees them (lines 198-215).\<close>

definition search_context :: "GoogleShoppingSearchOpts option list \<Rightarrow> ContextOption" where
  "search_context opts =
     SetDefaultSortBy
       (apply_modifiers Map.empty
          (GoogleShoppingSearchOpts.Context (effective_opt GoogleShoppingSearchOpts_zero opts)))"

definition search_opt ::
  "('h, 'r) env \<Rightarrow> GoogleShoppingSearchOpts option list \<Rightarrow> GoogleShoppingSearchOpts" where
  "search_opt e opts =
     (let opt = effective_opt GoogleShoppingSearchOpts_zero opts
      in opt\<lparr>GoogleShoppingSearchOpts.Pages := SetDefaultPages (GoogleShoppingSearchOpts.Pages opt),
             GoogleShoppingSearchOpts.Domain := SetDefaultDomain e (GoogleShoppingSearchOpts.Domain opt),
             GoogleShoppingSearchOpts.StartPage :=
               SetDefaultStartPage (GoogleShoppingSearchOpts.StartPage opt),
             GoogleShoppingSearchOpts.UserAgent :=
               SetDefaultUserAgent e (GoogleShoppingSearchOpts.UserAgent opt)\<rparr>)"

text \<open>\<^verbatim>\<open>ScrapeGoogleShoppingSearchCtx\<close> up to the payload and \<^verbatim>\<open>customParserFlag\<close> (lines 198-262).\<close>

definition ScrapeGoogleShoppingSearchCtx_payload ::
  "('h, 'r) env \<Rightarrow> string \<Rightarrow> GoogleShoppingSearchOpts option list \<Rightarrow> failure + prepared" where
  "ScrapeGoogleShoppingSearchCtx_payload e query opts =
     (let context = search_context opts;
          opt = search_opt e opts
      in case GoogleShoppingSearchOpts_checkParameterValidity e opt context of
           Inl p \<Rightarrow> Inl (Panic p)
         | Inr (Some err) \<Rightarrow> Inl (Error err)
         | Inr None \<Rightarrow>
             (let payload0 =
                    [''source'' \<mapsto> VString (GoogleShoppingSearch e),
                     ''domain'' \<mapsto> VString (GoogleShoppingSearchOpts.Domain opt),
                     ''query'' \<mapsto> VString query,
                     ''start_page'' \<mapsto> VInt (GoogleShoppingSearchOpts.StartPage opt),
                     ''pages'' \<mapsto> VInt (GoogleShoppingSearchOpts.Pages opt),
                     ''locale'' \<mapsto> VString (GoogleShoppingSearchOpts.Locale opt),
                     ''results_language'' \<mapsto> VString (GoogleShoppingSearchOpts.ResultsLanguage opt),
                     ''geo_location'' \<mapsto> VString (GoogleShoppingSearchOpts.GeoLocation opt),
                     ''user_agent_type'' \<mapsto> VString (GoogleShoppingSearchOpts.UserAgent opt),
                     ''render'' \<mapsto> VString (GoogleShoppingSearchOpts.Render opt),
                     ''callback_url'' \<mapsto> VString (GoogleShoppingSearchOpts.CallbackURL opt),
                     ''parse'' \<mapsto> VBool (GoogleShoppingSearchOpts.Parse opt),
                     ''context'' \<mapsto>
                       VList
                         [VMap [(''key'', VString ''nfpr''), (''value'', index context ''nfpr'')],
                          VMap [(''key'', VString ''sort_by''), (''value'', index context ''sort_by'')],
                          VMap [(''key'', VString ''min_price''), (''value'', index context ''min_price'')],
                          VMap [(''key'', VString ''max_price''), (''value'', index context ''max_price'')]]]
              in case GoogleShoppingSearchOpts.ParseInstructions opt of
                   None \<Rightarrow>
                     Inr \<lparr>payload = payload0,
                          parse = GoogleShoppingSearchOpts.Parse opt,
                          customParserFlag = False\<rparr>
                 | Some pi \<Rightarrow>
                     Inr \<lparr>payload = payload0(''parsing_instructions'' \<mapsto> VMap pi),
                          parse = GoogleShoppingSearchOpts.Parse opt,
                          customParserFlag = True\<rparr>))"

definition ScrapeGoogleShoppingSearchCtx ::
  "('h, 'r) env \<Rightarrow> go_context \<Rightarrow> string \<Rightarrow> GoogleShoppingSearchOpts option list \<Rightarrow> 'r call" where
  "ScrapeGoogleShoppingSearchCtx e ctx query opts =
     run e ctx (ScrapeGoogleShoppingSearchCtx_payload e query opts)"

definition ScrapeGoogleShoppingSearch ::
  "('h, 'r) env \<Rightarrow> string \<Rightarrow> GoogleShoppingSearchOpts option list \<Rightarrow> 'r call" where
  "ScrapeGoogleShoppingSearch e query opts =
     ScrapeGoogleShoppingSearchCtx e (WithTimeout Background DefaultTimeout) query opts"

subsection \<open>ScrapeGoogleShoppingProduct\<close>

record GoogleShoppingProductOpts =
  Domain :: string
  Locale :: string
  ResultsLanguage :: string
  GeoLocation :: string
  UserAgent :: string
  Render :: string
  CallbackURL :: string
  Parse :: bool
  ParseInstructions :: "(string \<times> gvalue) list option"
  PollInterval :: Duration

definition GoogleShoppingProductOpts_zero :: GoogleShoppingProductOpts where
  "GoogleShoppingProductOpts_zero =
     \<lparr>GoogleShoppingProductOpts.Domain = '''',
      GoogleShoppingProductOpts.Locale = '''',
      GoogleShoppingProductOpts.ResultsLanguage = '''',
      GoogleShoppingProductOpts.GeoLocation = '''',
      GoogleShoppingProductOpts.UserAgent = '''',
      GoogleShoppingProductOpts.Render = '''',
      GoogleShoppingProductOpts.CallbackURL = '''',
      GoogleShoppingProductOpts.Parse = False,
      GoogleShoppingProductOpts.ParseInstructions = None,
      GoogleShoppingProductOpts.PollInterval = 0\<rparr>"

definition GoogleShoppingProductOpts_checkParameterValidity ::
  "('h, 'r) env \<Rightarrow> GoogleShoppingProductOpts \<Rightarrow> error option" where
  "GoogleShoppingProductOpts_checkParameterValidity e opt =
     (if \<not> IsUserAgentValid e (GoogleShoppingProductOpts.UserAgent opt)
      then Some (InvalidUserAgent (GoogleShoppingProductOpts.UserAgent opt))
      else if GoogleShoppingProductOpts.Render opt \<noteq> '''' \<and>
              \<not> IsRenderValid e (GoogleShoppingProductOpts.Render opt)
      then Some (InvalidRender (GoogleShoppingProductOpts.Render opt))
      else (case GoogleShoppingProductOpts.ParseInstructions opt of
              None \<Rightarrow> None
            | Some pi \<Rightarrow>
                (case ValidateParseInstructions e pi of
                   Some m \<Rightarrow> Some (InvalidParseInstructions m)
                 | None \<Rightarrow> None)))"

text \<open>\<^verbatim>\<open>ScrapeGoogleShoppingProductCtx\<close> up to the payload and \<^verbatim>\<open>customParserFlag\<close> (lines 338-373).\<close>

definition ScrapeGoogleShoppingProductCtx_payload ::
  "('h, 'r) env \<Rightarrow> string \<Rightarrow> GoogleShoppingProductOpts option list \<Rightarrow> failure + prepared" where
  "ScrapeGoogleShoppingProductCtx_payload e query opts =
     (let opt0 = effective_opt GoogleShoppingProductOpts_zero opts;
          opt = opt0\<lparr>GoogleShoppingProductOpts.Domain :=
                       SetDefaultDomain e (GoogleShoppingProductOpts.Domain opt0),
                     GoogleShoppingProductOpts.UserAgent :=
                       SetDefaultUserAgent e (GoogleShoppingProductOpts.UserAgent opt0)\<rparr>
      in case GoogleShoppingProductOpts_checkParameterValidity e opt of
           Some err \<Rightarrow> Inl (Error err)
         | None \<Rightarrow>
             (let payload0 =
                    [''source'' \<mapsto> VString (GoogleShoppingProduct e),
                     ''domain'' \<mapsto> VString (GoogleShoppingProductOpts.Domain opt),
                     ''query'' \<mapsto> VString query,
                     ''locale'' \<mapsto> VString (GoogleShoppingProductOpts.Locale opt),
                     ''results_language'' \<mapsto> VString (GoogleShoppingProductOpts.ResultsLanguage opt),
                     ''geo_location'' \<mapsto> VString (GoogleShoppingProductOpts.GeoLocation opt),
                     ''user_agent_type'' \<mapsto> VString (GoogleShoppingProductOpts.UserAgent opt),
                     ''render'' \<mapsto> VString (GoogleShoppingProductOpts.Render opt),
                     ''callback_url'' \<mapsto> VString (GoogleShoppingProductOpts.CallbackURL opt),
                     ''parse'' \<mapsto> VBool (GoogleShoppingProductOpts.Parse opt)]
              in case GoogleShoppingProductOpts.ParseInstructions opt of
                   None \<Rightarrow>
                     Inr \<lparr>payload = payload0,
                          parse = GoogleShoppingProductOpts.Parse opt,
                          customParserFlag = False\<rparr>
                 | Some pi \<Rightarrow>
                     Inr \<lparr>payload = payload0(''parsing_instructions'' \<mapsto> VMap pi),
                          parse = GoogleShoppingProductOpts.Parse opt,
                          customParserFlag = True\<rparr>))"

definition ScrapeGoogleShoppingProductCtx ::
  "('h, 'r) env \<Rightarrow> go_context \<Rightarrow> string \<Rightarrow> GoogleShoppingProductOpts option list \<Rightarrow> 'r call" where
  "ScrapeGoogleShoppingProductCtx e ctx query opts =
     run e ctx (ScrapeGoogleShoppingProductCtx_payload e query opts)"

definition ScrapeGoogleShoppingProduct ::
  "('h, 'r) env \<Rightarrow> string \<Rightarrow> GoogleShoppingProductOpts option list \<Rightarrow> 'r call" where
  "ScrapeGoogleShoppingProduct e query opts =
     ScrapeGoogleShoppingProductCtx e (WithTimeout Background DefaultTimeout) query opts"

subsection \<open>ScrapeGoogleShoppingPricing\<close>

record GoogleShoppingPricingOpts =
  Domain :: string
  StartPage :: int
  Pages :: int
  Locale :: string
  ResultsLanguage :: string
  GeoLocation :: string
  UserAgent :: string
  Render :: string
  CallbackURL :: string
  Parse :: bool
  ParseInstructions :: "(string \<times> gvalue) list option"
  PollInterval :: Duration

definition GoogleShoppingPricingOpts_zero :: GoogleShoppingPricingOpts where
  "GoogleShoppingPricingOpts_zero =
     \<lparr>GoogleShoppingPricingOpts.Domain = '''',
      GoogleShoppingPricingOpts.StartPage = 0,
      GoogleShoppingPricingOpts.Pages = 0,
      GoogleShoppingPricingOpts.Locale = '''',
      GoogleShoppingPricingOpts.ResultsLanguage = '''',
      GoogleShoppingPricingOpts.GeoLocation = '''',
      GoogleShoppingPricingOpts.UserAgent = '''',
      GoogleShoppingPricingOpts.Render = '''',
      GoogleShoppingPricingOpts.CallbackURL = '''',
      GoogleShoppingPricingOpts.Parse = False,
      GoogleShoppingPricingOpts.ParseInstructions = None,
      GoogleShoppingPricingOpts.PollInterval = 0\<rparr>"

definition GoogleShoppingPricingOpts_checkParameterValidity ::
  "('h, 'r) env \<Rightarrow> GoogleShoppingPricingOpts \<Rightarrow> error option" where
  "GoogleShoppingPricingOpts_checkParameterValidity e opt =
     (if \<not> IsUserAgentValid e (GoogleShoppingPricingOpts.UserAgent opt)
      then Some (InvalidUserAgent (GoogleShoppingPricingOpts.UserAgent opt))
      else if GoogleShoppingPricingOpts.Render opt \<noteq> '''' \<and>
              \<not> IsRenderValid e (GoogleShoppingPricingOpts.Render opt)
      then Some (InvalidRender (GoogleShoppingPricingOpts.Render opt))
      else if GoogleShoppingPricingOpts.Pages opt \<le> 0 \<or> GoogleShoppingPricingOpts.StartPage opt \<le> 0
      then Some PagesNotPositive
      else (case GoogleShoppingPricingOpts.ParseInstructions opt of
              None \<Rightarrow> None
            | Some pi \<Rightarrow>
                (case ValidateParseInstructions e pi of
                   Some m \<Rightarrow> Some (InvalidParseInstructions m)
                 | None \<Rightarrow> None)))"

text \<open>The options as \<^verbatim>\<open>checkParameterValidity\<close> sees them (lines 455-465).\<close>

definition pricing_opt ::
  "('h, 'r) env \<Rightarrow> GoogleShoppingPricingOpts option list \<Rightarrow> GoogleShoppingPricingOpts" where
  "pricing_opt e opts =
     (let opt = effective_opt GoogleShoppingPricingOpts_zero opts
      in opt\<lparr>GoogleShoppingPricingOpts.Pages := SetDefaultPages (GoogleShoppingPricingOpts.Pages opt),
             GoogleShoppingPricingOpts.Domain := SetDefaultDomain e (GoogleShoppingPricingOpts.Domain opt),
             GoogleShoppingPricingOpts.StartPage :=
               SetDefaultStartPage (GoogleShoppingPricingOpts.StartPage opt),
             GoogleShoppingPricingOpts.UserAgent :=
               SetDefaultUserAgent e (GoogleShoppingPricingOpts.UserAgent opt)\<rparr>)"

text \<open>\<^verbatim>\<open>ScrapeGoogleShoppingPricingCtx\<close> up to the payload and \<^verbatim>\<open>customParserFlag\<close> (lines 455-494).\<close>

definition ScrapeGoogleShoppingPricingCtx_payload ::
  "('h, 'r) env \<Rightarrow> string \<Rightarrow> GoogleShoppingPricingOpts option list \<Rightarrow> failure + prepared" where
  "ScrapeGoogleShoppingPricingCtx_payload e query opts =
     (let opt = pricing_opt e opts
      in case GoogleShoppingPricingOpts_checkParameterValidity e opt of
           Some err \<Rightarrow> Inl (Error err)
         | None \<Rightarrow>
             (let payload0 =
                    [''source'' \<mapsto> VString (GoogleShoppingPricing e),
                     ''domain'' \<mapsto> VString (GoogleShoppingPricingOpts.Domain opt),
                     ''query'' \<mapsto> VString query,
                     ''start_page'' \<mapsto> VInt (GoogleShoppingPricingOpts.StartPage opt),
                     ''pages'' \<mapsto> VInt (GoogleShoppingPricingOpts.Pages opt),
                     ''locale'' \<mapsto> VString (GoogleShoppingPricingOpts.Locale opt),
                     ''results_language'' \<mapsto> VString (GoogleShoppingPricingOpts.ResultsLanguage opt),
                     ''geo_location'' \<mapsto> VString (GoogleShoppingPricingOpts.GeoLocation opt),
                     ''user_agent_type'' \<mapsto> VString (GoogleShoppingPricingOpts.UserAgent opt),
                     ''render'' \<mapsto> VString (GoogleShoppingPricingOpts.Render opt),
                     ''callback_url'' \<mapsto> VString (GoogleShoppingPricingOpts.CallbackURL opt),
                     ''parse'' \<mapsto> VBool (GoogleShoppingPricingOpts.Parse opt)]
              in case GoogleShoppingPricingOpts.ParseInstructions opt of
                   None \<Rightarrow>
                     Inr \<lparr>payload = payload0,
                          parse = GoogleShoppingPricingOpts.Parse opt,
                          customParserFlag = False\<rparr>
                 | Some pi \<Rightarrow>
                     Inr \<lparr>payload = payload0(''parsing_instructions'' \<mapsto> VMap pi),
                          parse = GoogleShoppingPricingOpts.Parse opt,
                          customParserFlag = True\<rparr>))"

definition ScrapeGoogleShoppingPricingCtx ::
  "('h, 'r) env \<Rightarrow> go_context \<Rightarrow> string \<Rightarrow> GoogleShoppingPricingOpts option list \<Rightarrow> 'r call" where
  "ScrapeGoogleShoppingPricingCtx e ctx query opts =
     run e ctx (ScrapeGoogleShoppingPricingCtx_payload e query opts)"

definition ScrapeGoogleShoppingPricing ::
  "('h, 'r) env \<Rightarrow> string \<Rightarrow> GoogleShoppingPricingOpts option list \<Rightarrow> 'r call" where
  "ScrapeGoogleShoppingPricing e query opts =
     ScrapeGoogleShoppingPricingCtx e (WithTimeout Background DefaultTimeout) query opts"

section \<open>A concrete environment\<close>

text \<open>
  Stand-ins for the declarations that are not among the sources, to run the model on
  concrete calls: two user agent classes, two render modes, membership for
  \<^verbatim>\<open>InList\<close>, a host check for \<^verbatim>\<open>ValidateUrl\<close>, and a transport that echoes the request
  body. No general theorem below depends on them.
\<close>

definition sample_env :: "(string, string) env" where
  "sample_env =
     \<lparr>UA_DESKTOP = ''desktop'',
      DOMAIN_COM = ''com'',
      GoogleShoppingUrl = ''google_shopping'',
      GoogleShoppingSearch = ''google_shopping_search'',
      GoogleShoppingProduct = ''google_shopping_product'',
      GoogleShoppingPricing = ''google_shopping_pricing'',
      IsUserAgentValid = (\<lambda>ua. ua = ''desktop'' \<or> ua = ''mobile''),
      IsRenderValid = (\<lambda>r. r = ''html'' \<or> r = ''png''),
      ValidateParseInstructions = (\<lambda>pi. if pi = [] then Some ''empty instructions'' else None),
      ValidateUrl = (\<lambda>url host. if url = [] then Some ''empty url'' else None),
      InList = (\<lambda>x xs. x \<in> set xs),
      json_Marshal = (\<lambda>p. Inr ''{...}''),
      Req = (\<lambda>ctx body method. Inr body),
      GetResp = (\<lambda>h p f. Inr h)\<rparr>"

text \<open>Context modifiers of the kind a caller passes: each stores one key.\<close>

definition SortBy :: "string \<Rightarrow> ContextOption \<Rightarrow> ContextOption" where
  "SortBy sortBy ctx = ctx(''sort_by'' \<mapsto> VString sortBy)"

definition MinPrice :: "int \<Rightarrow> ContextOption \<Rightarrow> ContextOption" where
  "MinPrice minPrice ctx = ctx(''min_price'' \<mapsto> VInt minPrice)"

definition MaxPrice :: "int \<Rightarrow> ContextOption \<Rightarrow> ContextOption" where
  "MaxPrice maxPrice ctx = ctx(''max_price'' \<mapsto> VInt maxPrice)"

section \<open>Properties\<close>

subsection \<open>Helper lemmas\<close>





lemma run_Inl: "requests (run e ctx (Inl f)) = []" "outcome (run e ctx (Inl f)) = Inl f"
  by (simp_all add: run_def)

lemma requests_run_Inr:
  "json_Marshal e (payload p) = Inr b \<Longrightarrow> requests (run e ctx (Inr p)) = [(ctx, b, ''POST'')]"
  by (simp add: run_def send_def split: sum.splits)

lemma outcome_run_Inr:
  "outcome (run e ctx (Inr p)) \<noteq> Inl (Panic x)"
  "outcome (run e ctx (Inr p)) = Inl (Error err) \<Longrightarrow> \<not> validation_error err"
  by (auto simp: run_def send_def split: sum.splits)

lemma requests_run:
  "requests (run e ctx prep) = [] \<or>
   (\<exists>p b. prep = Inr p \<and> json_Marshal e (payload p) = Inr b \<and>
      requests (run e ctx prep) = [(ctx, b, ''POST'')])"
  by (auto simp: run_def send_def split: sum.splits)

subsection \<open>Client construction\<close>


subsection \<open>Default deadline\<close>

text \<open>
  C7. The default poll interval is 2 seconds and the default timeout 50 seconds (in
  nanoseconds). Each of the four context-free entry points is its \<^verbatim>\<open>Ctx\<close> variant under
  \<^verbatim>\<open>context.WithTimeout(context.Background(), 50s)\<close>, and a request it sends carries
  that context.
\<close>

theorem default_deadline:
  "DefaultPollInterval = 2 * 1000000000 \<and>
   DefaultTimeout = 50 * 1000000000 \<and>
   ScrapeGoogleShoppingUrl e url uopts =
     ScrapeGoogleShoppingUrlCtx e (WithTimeout Background 50000000000) url uopts \<and>
   ScrapeGoogleShoppingSearch e query sopts =
     ScrapeGoogleShoppingSearchCtx e (WithTimeout Background 50000000000) query sopts \<and>
   ScrapeGoogleShoppingProduct e query popts =
     ScrapeGoogleShoppingProductCtx e (WithTimeout Background 50000000000) query popts \<and>
   ScrapeGoogleShoppingPricing e query ropts =
     ScrapeGoogleShoppingPricingCtx e (WithTimeout Background 50000000000) query ropts \<and>
   (requests (ScrapeGoogleShoppingUrl e url uopts) = [] \<or>
    (\<exists>body. requests (ScrapeGoogleShoppingUrl e url uopts) =
       [(WithTimeout Background 50000000000, body, ''POST'')])) \<and>
   (requests (ScrapeGoogleShoppingSearch e query sopts) = [] \<or>
    (\<exists>body. requests (ScrapeGoogleShoppingSearch e query sopts) =
       [(WithTimeout Background 50000000000, body, ''POST'')])) \<and>
   (requests (ScrapeGoogleShoppingProduct e query popts) = [] \<or>
    (\<exists>body. requests (ScrapeGoogleShoppingProduct e query popts) =
       [(WithTimeout Background 50000000000, body, ''POST'')])) \<and>
   (requests (ScrapeGoogleShoppingPricing e query ropts) = [] \<or>
    (\<exists>body. requests (ScrapeGoogleShoppingPricing e query ropts) =
       [(WithTimeout Background 50000000000, body, ''POST'')]))"
proof -
  have t: "DefaultTimeout = 50000000000" "DefaultPollInterval = 2000000000"
    by (simp_all add: DefaultTimeout_def DefaultPollInterval_def Second_def)
  have r: "requests (run e (WithTimeout Background 50000000000) prep) = [] \<or>
           (\<exists>body. requests (run e (WithTimeout Background 50000000000) prep) =
              [(WithTimeout Background 50000000000, body, ''POST'')])" for prep
    using requests_run [of e "WithTimeout Background 50000000000" prep] by blast
  show ?thesis
    unfolding ScrapeGoogleShoppingUrl_def ScrapeGoogleShoppingSearch_def
      ScrapeGoogleShoppingProduct_def ScrapeGoogleShoppingPricing_def
      ScrapeGoogleShoppingUrlCtx_def ScrapeGoogleShoppingSearchCtx_def
      ScrapeGoogleShoppingProductCtx_def ScrapeGoogleShoppingPricingCtx_def t
    using r by simp
qed

subsection \<open>Variadic options\<close>


subsection \<open>The search payload\<close>

lemma index_SetDefaultSortBy:
  "index (SetDefaultSortBy c) k =
     (if k = ''sort_by'' \<and> index c ''sort_by'' = VNil then VString ''r'' else index c k)"
  by (simp add: SetDefaultSortBy_def index_def)

lemma search_payload_Inr:
  assumes "ScrapeGoogleShoppingSearchCtx_payload e query opts = Inr p"
  shows "GoogleShoppingSearchOpts_checkParameterValidity e (search_opt e opts) (search_context opts) =
           Inr None"
    and "payload p ''domain'' = Some (VString (GoogleShoppingSearchOpts.Domain (search_opt e opts)))"
    and "payload p ''start_page'' =
           Some (VInt (GoogleShoppingSearchOpts.StartPage (search_opt e opts)))"
    and "payload p ''pages'' = Some (VInt (GoogleShoppingSearchOpts.Pages (search_opt e opts)))"
    and "payload p ''user_agent_type'' =
           Some (VString (GoogleShoppingSearchOpts.UserAgent (search_opt e opts)))"
    and "payload p ''context'' = Some (VList
           [VMap [(''key'', VString ''nfpr''), (''value'', index (search_context opts) ''nfpr'')],
            VMap [(''key'', VString ''sort_by''), (''value'', index (search_context opts) ''sort_by'')],
            VMap [(''key'', VString ''min_price''),
                  (''value'', index (search_context opts) ''min_price'')],
            VMap [(''key'', VString ''max_price''),
                  (''value'', index (search_context opts) ''max_price'')]])"
  using assms
  by (auto simp: ScrapeGoogleShoppingSearchCtx_payload_def Let_def split: sum.splits option.splits)

lemma search_opt_fields:
  "GoogleShoppingSearchOpts.Domain (search_opt e opts) =
     SetDefaultDomain e
       (GoogleShoppingSearchOpts.Domain (effective_opt GoogleShoppingSearchOpts_zero opts))"
  "GoogleShoppingSearchOpts.StartPage (search_opt e opts) =
     SetDefaultStartPage
       (GoogleShoppingSearchOpts.StartPage (effective_opt GoogleShoppingSearchOpts_zero opts))"
  "GoogleShoppingSearchOpts.Pages (search_opt e opts) =
     SetDefaultPages
       (GoogleShoppingSearchOpts.Pages (effective_opt GoogleShoppingSearchOpts_zero opts))"
  "GoogleShoppingSearchOpts.UserAgent (search_opt e opts) =
     SetDefaultUserAgent e
       (GoogleShoppingSearchOpts.UserAgent (effective_opt GoogleShoppingSearchOpts_zero opts))"
  "GoogleShoppingSearchOpts.Render (search_opt e opts) =
     GoogleShoppingSearchOpts.Render (effective_opt GoogleShoppingSearchOpts_zero opts)"
  "GoogleShoppingSearchOpts.ParseInstructions (search_opt e opts) =
     GoogleShoppingSearchOpts.ParseInstructions (effective_opt GoogleShoppingSearchOpts_zero opts)"
  by (simp_all add: search_opt_def Let_def)

text \<open>The sample environment accepts a call that sets nothing, and one that sets the context.\<close>

lemma sample_search_unset:
  "ScrapeGoogleShoppingSearchCtx_payload sample_env ''shoes'' [] =
     Inr \<lparr>payload =
            [''source'' \<mapsto> VString ''google_shopping_search'',
             ''domain'' \<mapsto> VString ''com'',
             ''query'' \<mapsto> VString ''shoes'',
             ''start_page'' \<mapsto> VInt 1,
             ''pages'' \<mapsto> VInt 1,
             ''locale'' \<mapsto> VString '''',
             ''results_language'' \<mapsto> VString '''',
             ''geo_location'' \<mapsto> VString '''',
             ''user_agent_type'' \<mapsto> VString ''desktop'',
             ''render'' \<mapsto> VString '''',
             ''callback_url'' \<mapsto> VString '''',
             ''parse'' \<mapsto> VBool False,
             ''context'' \<mapsto>
               VList
                 [VMap [(''key'', VString ''nfpr''), (''value'', VNil)],
                  VMap [(''key'', VString ''sort_by''), (''value'', VString ''r'')],
                  VMap [(''key'', VString ''min_price''), (''value'', VNil)],
                  VMap [(''key'', VString ''max_price''), (''value'', VNil)]]],
          parse = False,
          customParserFlag = False\<rparr>"
  by (simp add: ScrapeGoogleShoppingSearchCtx_payload_def search_context_def search_opt_def
      effective_opt_def GoogleShoppingSearchOpts_zero_def
      GoogleShoppingSearchOpts_checkParameterValidity_def sort_by_condition_def
      price_condition_def assert_string_def assert_int_def index_def SetDefaultSortBy_def
      SetDefaultPages_def SetDefaultDomain_def SetDefaultStartPage_def SetDefaultUserAgent_def
      AcceptedSortByParameters_def sample_env_def)



lemma sample_search_context:
  "ScrapeGoogleShoppingSearchCtx_payload sample_env ''shoes''
     [Some (GoogleShoppingSearchOpts_zero
        \<lparr>GoogleShoppingSearchOpts.Context := [SortBy ''p'', MinPrice 5, MaxPrice 100]\<rparr>)] =
     Inr \<lparr>payload =
            [''source'' \<mapsto> VString ''google_shopping_search'',
             ''domain'' \<mapsto> VString ''com'',
             ''query'' \<mapsto> VString ''shoes'',
             ''start_page'' \<mapsto> VInt 1,
             ''pages'' \<mapsto> VInt 1,
             ''locale'' \<mapsto> VString '''',
             ''results_language'' \<mapsto> VString '''',
             ''geo_location'' \<mapsto> VString '''',
             ''user_agent_type'' \<mapsto> VString ''desktop'',
             ''render'' \<mapsto> VString '''',
             ''callback_url'' \<mapsto> VString '''',
             ''parse'' \<mapsto> VBool False,
             ''context'' \<mapsto>
               VList
                 [VMap [(''key'', VString ''nfpr''), (''value'', VNil)],
                  VMap [(''key'', VString ''sort_by''), (''value'', VString ''p'')],
                  VMap [(''key'', VString ''min_price''), (''value'', VInt 5)],
                  VMap [(''key'', VString ''max_price''), (''value'', VInt 100)]]],
          parse = False,
          customParserFlag = False\<rparr>"
  by (simp add: ScrapeGoogleShoppingSearchCtx_payload_def search_context_def search_opt_def
      effective_opt_def GoogleShoppingSearchOpts_zero_def
      GoogleShoppingSearchOpts_checkParameterValidity_def sort_by_condition_def
      price_condition_def assert_string_def assert_int_def index_def SetDefaultSortBy_def
      SetDefaultPages_def SetDefaultDomain_def SetDefaultStartPage_def SetDefaultUserAgent_def
      AcceptedSortByParameters_def sample_env_def SortBy_def MinPrice_def MaxPrice_def)

text \<open>
  C10. In the payload of a search call that passes validation, \<^verbatim>\<open>context\<close> is the list
  of the four pairs \<^verbatim>\<open>nfpr\<close>, \<^verbatim>\<open>sort_by\<close>, \<^verbatim>\<open>min_price\<close>, \<^verbatim>\<open>max_price\<close>, in this order.
  With \<open>c\<close> the map the caller's modifiers leave behind: the value of \<^verbatim>\<open>sort_by\<close> is
  \<^verbatim>\<open>"r"\<close> when \<open>c\<close> has none (or nil), and the value of each other key is nil when \<open>c\<close>
  has none.
\<close>

theorem context_four_pairs:
  assumes "ScrapeGoogleShoppingSearchCtx_payload e query opts = Inr p"
    and "c = apply_modifiers Map.empty
               (GoogleShoppingSearchOpts.Context (effective_opt GoogleShoppingSearchOpts_zero opts))"
  shows
    "payload p ''context'' = Some (VList
       [VMap [(''key'', VString ''nfpr''),
              (''value'', case c ''nfpr'' of None \<Rightarrow> VNil | Some v \<Rightarrow> v)],
        VMap [(''key'', VString ''sort_by''),
              (''value'', case c ''sort_by'' of None \<Rightarrow> VString ''r''
                          | Some v \<Rightarrow> if v = VNil then VString ''r'' else v)],
        VMap [(''key'', VString ''min_price''),
              (''value'', case c ''min_price'' of None \<Rightarrow> VNil | Some v \<Rightarrow> v)],
        VMap [(''key'', VString ''max_price''),
              (''value'', case c ''max_price'' of None \<Rightarrow> VNil | Some v \<Rightarrow> v)]])"
  using search_payload_Inr(6) [OF assms(1)] assms(2)
  by (simp add: search_context_def index_SetDefaultSortBy) (simp add: index_def split: option.splits)

theorem context_four_pairs_witness:
  "(\<exists>p. ScrapeGoogleShoppingSearchCtx_payload sample_env ''shoes''
          [Some (GoogleShoppingSearchOpts_zero
             \<lparr>GoogleShoppingSearchOpts.Context := [SortBy ''p'', MinPrice 5, MaxPrice 100]\<rparr>)] =
          Inr p \<and>
        payload p ''context'' = Some (VList
          [VMap [(''key'', VString ''nfpr''), (''value'', VNil)],
           VMap [(''key'', VString ''sort_by''), (''value'', VString ''p'')],
           VMap [(''key'', VString ''min_price''), (''value'', VInt 5)],
           VMap [(''key'', VString ''max_price''), (''value'', VInt 100)]])) \<and>
   (\<exists>p. ScrapeGoogleShoppingSearchCtx_payload sample_env ''shoes'' [] = Inr p \<and>
        payload p ''context'' = Some (VList
          [VMap [(''key'', VString ''nfpr''), (''value'', VNil)],
           VMap [(''key'', VString ''sort_by''), (''value'', VString ''r'')],
           VMap [(''key'', VString ''min_price''), (''value'', VNil)],
           VMap [(''key'', VString ''max_price''), (''value'', VNil)]]))"
  using context_four_pairs [OF sample_search_context refl]
    context_four_pairs [OF sample_search_unset refl]
    sample_search_context sample_search_unset
  by (simp add: effective_opt_def GoogleShoppingSearchOpts_zero_def SortBy_def MinPrice_def
      MaxPrice_def)

subsection \<open>The URL payload\<close>

lemma url_payload_map:
  assumes "ScrapeGoogleShoppingUrlCtx_payload e url opts = Inr p"
    and "opt = effective_opt GoogleShoppingUrlOpts_zero opts"
  shows "\<exists>ua r cb g ps.
           payload p =
             (case GoogleShoppingUrlOpts.ParseInstructions opt of
                None \<Rightarrow>
                  [''source'' \<mapsto> VString (GoogleShoppingUrl e), ''url'' \<mapsto> VString url,
                   ''user_agent_type'' \<mapsto> ua, ''render'' \<mapsto> r, ''callback_url'' \<mapsto> cb,
                   ''geo_location'' \<mapsto> g, ''parse'' \<mapsto> ps]
              | Some pi \<Rightarrow>
                  [''source'' \<mapsto> VString (GoogleShoppingUrl e), ''url'' \<mapsto> VString url,
                   ''user_agent_type'' \<mapsto> ua, ''render'' \<mapsto> r, ''callback_url'' \<mapsto> cb,
                   ''geo_location'' \<mapsto> g, ''parse'' \<mapsto> ps,
                   ''parsing_instructions'' \<mapsto> VMap pi]) \<and>
           customParserFlag p = (GoogleShoppingUrlOpts.ParseInstructions opt \<noteq> None)"
  using assms
  by (fastforce simp: ScrapeGoogleShoppingUrlCtx_payload_def Let_def split: option.splits)

lemma url_payload_Inr:
  assumes "ScrapeGoogleShoppingUrlCtx_payload e url opts = Inr p"
    and "opt = effective_opt GoogleShoppingUrlOpts_zero opts"
  shows "payload p ''source'' = Some (VString (GoogleShoppingUrl e))"
    and "payload p ''url'' = Some (VString url)"
    and "customParserFlag p = (GoogleShoppingUrlOpts.ParseInstructions opt \<noteq> None)"
    and "dom (payload p) =
           (case GoogleShoppingUrlOpts.ParseInstructions opt of
              None \<Rightarrow> {''parse'', ''geo_location'', ''callback_url'', ''render'',
                        ''user_agent_type'', ''url'', ''source''}
            | Some pi \<Rightarrow> {''parsing_instructions'', ''parse'', ''geo_location'', ''callback_url'',
                          ''render'', ''user_agent_type'', ''url'', ''source''})"
proof -
  from url_payload_map [OF assms] obtain ua r cb g ps where
    m: "payload p =
             (case GoogleShoppingUrlOpts.ParseInstructions opt of
                None \<Rightarrow>
                  [''source'' \<mapsto> VString (GoogleShoppingUrl e), ''url'' \<mapsto> VString url,
                   ''user_agent_type'' \<mapsto> ua, ''render'' \<mapsto> r, ''callback_url'' \<mapsto> cb,
                   ''geo_location'' \<mapsto> g, ''parse'' \<mapsto> ps]
              | Some pi \<Rightarrow>
                  [''source'' \<mapsto> VString (GoogleShoppingUrl e), ''url'' \<mapsto> VString url,
                   ''user_agent_type'' \<mapsto> ua, ''render'' \<mapsto> r, ''callback_url'' \<mapsto> cb,
                   ''geo_location'' \<mapsto> g, ''parse'' \<mapsto> ps,
                   ''parsing_instructions'' \<mapsto> VMap pi])"
    and f: "customParserFlag p = (GoogleShoppingUrlOpts.ParseInstructions opt \<noteq> None)"
    by blast
  show "payload p ''source'' = Some (VString (GoogleShoppingUrl e))"
    unfolding m by (simp split: option.splits)
  show "payload p ''url'' = Some (VString url)"
    unfolding m by (simp split: option.splits)
  show "customParserFlag p = (GoogleShoppingUrlOpts.ParseInstructions opt \<noteq> None)"
    by (rule f)
  show "dom (payload p) =
           (case GoogleShoppingUrlOpts.ParseInstructions opt of
              None \<Rightarrow> {''parse'', ''geo_location'', ''callback_url'', ''render'',
                        ''user_agent_type'', ''url'', ''source''}
            | Some pi \<Rightarrow> {''parsing_instructions'', ''parse'', ''geo_location'', ''callback_url'',
                          ''render'', ''user_agent_type'', ''url'', ''source''})"
    unfolding m by (simp split: option.splits)
qed

lemma sample_url_call:
  "ScrapeGoogleShoppingUrlCtx_payload sample_env ''https://shopping.google.com/product/1''
     [Some (GoogleShoppingUrlOpts_zero
        \<lparr>GoogleShoppingUrlOpts.ParseInstructions := Some [(''title'', VString ''h1'')]\<rparr>)] =
     Inr \<lparr>payload =
            [''source'' \<mapsto> VString ''google_shopping'',
             ''url'' \<mapsto> VString ''https://shopping.google.com/product/1'',
             ''user_agent_type'' \<mapsto> VString ''desktop'',
             ''render'' \<mapsto> VString '''',
             ''callback_url'' \<mapsto> VString '''',
             ''geo_location'' \<mapsto> VString '''',
             ''parse'' \<mapsto> VBool False,
             ''parsing_instructions'' \<mapsto> VMap [(''title'', VString ''h1'')]],
          parse = False,
          customParserFlag = True\<rparr>"
  by (simp add: ScrapeGoogleShoppingUrlCtx_payload_def effective_opt_def
      GoogleShoppingUrlOpts_zero_def GoogleShoppingUrlOpts_checkParameterValidity_def
      SetDefaultUserAgent_def sample_env_def)

text \<open>
  C4. In a call of \<^verbatim>\<open>ScrapeGoogleShoppingUrlCtx\<close> that passes validation, the payload has
  exactly the keys \<^verbatim>\<open>source\<close>, \<^verbatim>\<open>url\<close>, \<^verbatim>\<open>user_agent_type\<close>, \<^verbatim>\<open>render\<close>, \<^verbatim>\<open>callback_url\<close>,
  \<^verbatim>\<open>geo_location\<close> and \<^verbatim>\<open>parse\<close>, and the key \<^verbatim>\<open>parsing_instructions\<close> exactly when the
  caller's \<^verbatim>\<open>ParseInstructions\<close> is not nil, which is also when \<^verbatim>\<open>customParserFlag\<close> is
  true; \<^verbatim>\<open>source\<close> is the Google Shopping target identifier and \<^verbatim>\<open>url\<close> the given URL.
  When the payload marshals, the call sends one request: the POST of the marshalled
  payload.
\<close>

theorem url_payload_keys:
  assumes "ScrapeGoogleShoppingUrlCtx_payload e url opts = Inr p"
    and "opt = effective_opt GoogleShoppingUrlOpts_zero opts"
  shows
    "dom (payload p) =
       {''source'', ''url'', ''user_agent_type'', ''render'', ''callback_url'', ''geo_location'',
        ''parse''} \<union>
       (if GoogleShoppingUrlOpts.ParseInstructions opt = None then {}
        else {''parsing_instructions''}) \<and>
     payload p ''source'' = Some (VString (GoogleShoppingUrl e)) \<and>
     payload p ''url'' = Some (VString url) \<and>
     customParserFlag p = (GoogleShoppingUrlOpts.ParseInstructions opt \<noteq> None) \<and>
     (\<forall>body. json_Marshal e (payload p) = Inr body \<longrightarrow>
        requests (ScrapeGoogleShoppingUrlCtx e ctx url opts) = [(ctx, body, ''POST'')])"
proof -
  have "dom (payload p) =
       {''source'', ''url'', ''user_agent_type'', ''render'', ''callback_url'', ''geo_location'',
        ''parse''} \<union>
       (if GoogleShoppingUrlOpts.ParseInstructions opt = None then {}
        else {''parsing_instructions''})"
    unfolding url_payload_Inr(4) [OF assms]
    by (cases "GoogleShoppingUrlOpts.ParseInstructions opt") (simp_all add: insert_commute)
  moreover have "\<forall>body. json_Marshal e (payload p) = Inr body \<longrightarrow>
        requests (ScrapeGoogleShoppingUrlCtx e ctx url opts) = [(ctx, body, ''POST'')]"
    by (simp add: ScrapeGoogleShoppingUrlCtx_def assms(1) requests_run_Inr)
  ultimately show ?thesis
    using url_payload_Inr(1-3) [OF assms] by simp
qed

theorem url_payload_keys_witness:
  "\<exists>p. ScrapeGoogleShoppingUrlCtx_payload sample_env ''https://shopping.google.com/product/1''
          [Some (GoogleShoppingUrlOpts_zero
             \<lparr>GoogleShoppingUrlOpts.ParseInstructions := Some [(''title'', VString ''h1'')]\<rparr>)] =
          Inr p \<and>
        json_Marshal sample_env (payload p) = Inr ''{...}'' \<and>
        dom (payload p) =
          {''source'', ''url'', ''user_agent_type'', ''render'', ''callback_url'', ''geo_location'',
           ''parse'', ''parsing_instructions''} \<and>
        payload p ''source'' = Some (VString ''google_shopping'') \<and>
        customParserFlag p \<and>
        requests (ScrapeGoogleShoppingUrlCtx sample_env Background
                    ''https://shopping.google.com/product/1''
                    [Some (GoogleShoppingUrlOpts_zero
                       \<lparr>GoogleShoppingUrlOpts.ParseInstructions :=
                          Some [(''title'', VString ''h1'')]\<rparr>)]) =
          [(Background, ''{...}'', ''POST'')]"
proof -
  have m: "json_Marshal sample_env q = Inr ''{...}''" for q
    by (simp add: sample_env_def)
  show ?thesis
    using url_payload_keys [OF sample_url_call refl, of Background] sample_url_call m
    by (simp add: effective_opt_def GoogleShoppingUrlOpts_zero_def sample_env_def insert_commute)
qed

subsection \<open>Validation\<close>

lemma search_check_PagesNotPositive:
  "GoogleShoppingSearchOpts_checkParameterValidity e opt c = Inr (Some PagesNotPositive) \<longleftrightarrow>
     IsUserAgentValid e (GoogleShoppingSearchOpts.UserAgent opt) \<and>
     (GoogleShoppingSearchOpts.Render opt = '''' \<or>
      IsRenderValid e (GoogleShoppingSearchOpts.Render opt)) \<and>
     (GoogleShoppingSearchOpts.Pages opt \<le> 0 \<or> GoogleShoppingSearchOpts.StartPage opt \<le> 0)"
  by (auto simp: GoogleShoppingSearchOpts_checkParameterValidity_def
      split: sum.splits bool.splits option.splits)

lemma pricing_check_PagesNotPositive:
  "GoogleShoppingPricingOpts_checkParameterValidity e opt = Some PagesNotPositive \<longleftrightarrow>
     IsUserAgentValid e (GoogleShoppingPricingOpts.UserAgent opt) \<and>
     (GoogleShoppingPricingOpts.Render opt = '''' \<or>
      IsRenderValid e (GoogleShoppingPricingOpts.Render opt)) \<and>
     (GoogleShoppingPricingOpts.Pages opt \<le> 0 \<or> GoogleShoppingPricingOpts.StartPage opt \<le> 0)"
  by (auto simp: GoogleShoppingPricingOpts_checkParameterValidity_def
      split: sum.splits bool.splits option.splits)

lemma search_outcome_Error:
  "validation_error err \<Longrightarrow>
   outcome (ScrapeGoogleShoppingSearchCtx e ctx query opts) = Inl (Error err) \<longleftrightarrow>
     GoogleShoppingSearchOpts_checkParameterValidity e (search_opt e opts) (search_context opts) =
       Inr (Some err)"
  by (auto simp: ScrapeGoogleShoppingSearchCtx_def ScrapeGoogleShoppingSearchCtx_payload_def Let_def
      run_Inl dest: outcome_run_Inr(2) split: sum.splits option.splits)

lemma pricing_outcome_Error:
  "validation_error err \<Longrightarrow>
   outcome (ScrapeGoogleShoppingPricingCtx e ctx query opts) = Inl (Error err) \<longleftrightarrow>
     GoogleShoppingPricingOpts_checkParameterValidity e (pricing_opt e opts) = Some err"
  by (auto simp: ScrapeGoogleShoppingPricingCtx_def ScrapeGoogleShoppingPricingCtx_payload_def Let_def
      run_Inl dest: outcome_run_Inr(2) split: sum.splits option.splits)

lemma pricing_opt_fields:
  "GoogleShoppingPricingOpts.StartPage (pricing_opt e opts) =
     SetDefaultStartPage
       (GoogleShoppingPricingOpts.StartPage (effective_opt GoogleShoppingPricingOpts_zero opts))"
  "GoogleShoppingPricingOpts.Pages (pricing_opt e opts) =
     SetDefaultPages
       (GoogleShoppingPricingOpts.Pages (effective_opt GoogleShoppingPricingOpts_zero opts))"
  "GoogleShoppingPricingOpts.UserAgent (pricing_opt e opts) =
     SetDefaultUserAgent e
       (GoogleShoppingPricingOpts.UserAgent (effective_opt GoogleShoppingPricingOpts_zero opts))"
  "GoogleShoppingPricingOpts.Render (pricing_opt e opts) =
     GoogleShoppingPricingOpts.Render (effective_opt GoogleShoppingPricingOpts_zero opts)"
  by (simp_all add: pricing_opt_def Let_def)

lemma SetDefault_le_0:
  "SetDefaultPages n \<le> 0 \<longleftrightarrow> n < 0" "SetDefaultStartPage n \<le> 0 \<longleftrightarrow> n < 0"
  by (auto simp: SetDefaultPages_def SetDefaultStartPage_def)

text \<open>
  C9. The search and pricing calls return the "greater than 0" error exactly when the
  user agent and render checks pass and the caller's \<^verbatim>\<open>Pages\<close> or \<^verbatim>\<open>StartPage\<close> is
  negative: the defaults are set before the check, so a zero is 1 by then and is never
  the reason for the error.
\<close>

theorem zero_pages_never_rejected:
  assumes "so = effective_opt GoogleShoppingSearchOpts_zero sopts"
    and "ro = effective_opt GoogleShoppingPricingOpts_zero ropts"
  shows
    "(outcome (ScrapeGoogleShoppingSearchCtx e ctx query sopts) = Inl (Error PagesNotPositive) \<longleftrightarrow>
        IsUserAgentValid e (SetDefaultUserAgent e (GoogleShoppingSearchOpts.UserAgent so)) \<and>
        (GoogleShoppingSearchOpts.Render so = '''' \<or>
         IsRenderValid e (GoogleShoppingSearchOpts.Render so)) \<and>
        (GoogleShoppingSearchOpts.Pages so < 0 \<or> GoogleShoppingSearchOpts.StartPage so < 0)) \<and>
     (outcome (ScrapeGoogleShoppingPricingCtx e ctx query ropts) = Inl (Error PagesNotPositive) \<longleftrightarrow>
        IsUserAgentValid e (SetDefaultUserAgent e (GoogleShoppingPricingOpts.UserAgent ro)) \<and>
        (GoogleShoppingPricingOpts.Render ro = '''' \<or>
         IsRenderValid e (GoogleShoppingPricingOpts.Render ro)) \<and>
        (GoogleShoppingPricingOpts.Pages ro < 0 \<or> GoogleShoppingPricingOpts.StartPage ro < 0))"
  using assms
  by (simp add: search_outcome_Error pricing_outcome_Error search_check_PagesNotPositive
      pricing_check_PagesNotPositive search_opt_fields pricing_opt_fields SetDefault_le_0)

theorem zero_pages_never_rejected_witness:
  "outcome (ScrapeGoogleShoppingSearchCtx sample_env Background ''shoes''
              [Some (GoogleShoppingSearchOpts_zero \<lparr>GoogleShoppingSearchOpts.Pages := 0\<rparr>)]) \<noteq>
     Inl (Error PagesNotPositive) \<and>
   outcome (ScrapeGoogleShoppingSearchCtx sample_env Background ''shoes''
              [Some (GoogleShoppingSearchOpts_zero \<lparr>GoogleShoppingSearchOpts.Pages := - 1\<rparr>)]) =
     Inl (Error PagesNotPositive) \<and>
   outcome (ScrapeGoogleShoppingPricingCtx sample_env Background ''shoes''
              [Some (GoogleShoppingPricingOpts_zero \<lparr>GoogleShoppingPricingOpts.StartPage := 0\<rparr>)]) \<noteq>
     Inl (Error PagesNotPositive) \<and>
   outcome (ScrapeGoogleShoppingPricingCtx sample_env Background ''shoes''
              [Some (GoogleShoppingPricingOpts_zero \<lparr>GoogleShoppingPricingOpts.StartPage := - 1\<rparr>)]) =
     Inl (Error PagesNotPositive)"
  using
    zero_pages_never_rejected [OF refl refl, of sample_env Background "''shoes''"
      "[Some (GoogleShoppingSearchOpts_zero \<lparr>GoogleShoppingSearchOpts.Pages := 0\<rparr>)]"
      "[Some (GoogleShoppingPricingOpts_zero \<lparr>GoogleShoppingPricingOpts.StartPage := 0\<rparr>)]"]
    zero_pages_never_rejected [OF refl refl, of sample_env Background "''shoes''"
      "[Some (GoogleShoppingSearchOpts_zero \<lparr>GoogleShoppingSearchOpts.Pages := - 1\<rparr>)]"
      "[Some (GoogleShoppingPricingOpts_zero \<lparr>GoogleShoppingPricingOpts.StartPage := - 1\<rparr>)]"]
  by (simp add: effective_opt_def GoogleShoppingSearchOpts_zero_def GoogleShoppingPricingOpts_zero_def
      SetDefaultUserAgent_def sample_env_def)


lemma search_requests_imp_valid:
  "requests (ScrapeGoogleShoppingSearchCtx e ctx query opts) \<noteq> [] \<Longrightarrow>
   GoogleShoppingSearchOpts_checkParameterValidity e (search_opt e opts) (search_context opts) =
     Inr None"
  by (auto simp: ScrapeGoogleShoppingSearchCtx_def ScrapeGoogleShoppingSearchCtx_payload_def Let_def
      run_Inl split: sum.splits option.splits)


lemma search_check_panic:
  "GoogleShoppingSearchOpts_checkParameterValidity e (search_opt e opts) (search_context opts) =
     Inl x \<Longrightarrow>
   requests (ScrapeGoogleShoppingSearchCtx e ctx query opts) = [] \<and>
   outcome (ScrapeGoogleShoppingSearchCtx e ctx query opts) = Inl (Panic x)"
  by (simp add: ScrapeGoogleShoppingSearchCtx_def ScrapeGoogleShoppingSearchCtx_payload_def Let_def
      run_Inl)


text \<open>
  A \<^verbatim>\<open>sort_by\<close> that is not a string is not compared with the accepted keys: the type
  assertion of line 160 panics. The call still sends nothing.
\<close>

lemma search_check_sort_by_not_string:
  assumes "IsUserAgentValid e (GoogleShoppingSearchOpts.UserAgent opt)"
    and "GoogleShoppingSearchOpts.Render opt = '''' \<or>
         IsRenderValid e (GoogleShoppingSearchOpts.Render opt)"
    and "0 < GoogleShoppingSearchOpts.Pages opt" and "0 < GoogleShoppingSearchOpts.StartPage opt"
    and "index c ''sort_by'' \<noteq> VNil" and "\<forall>s. index c ''sort_by'' \<noteq> VString s"
  shows "GoogleShoppingSearchOpts_checkParameterValidity e opt c =
           Inl (InterfaceConversion (index c ''sort_by'') ''string'')"
  using assms
  by (auto simp: GoogleShoppingSearchOpts_checkParameterValidity_def sort_by_condition_def
      assert_string_def split: gvalue.splits)




text \<open>
  The price condition on a context that holds one bound only: with \<^verbatim>\<open>min_price\<close> alone
  the assertion on the absent \<^verbatim>\<open>max_price\<close> is reached unless the minimum is negative;
  with \<^verbatim>\<open>max_price\<close> alone the assertion on the absent \<^verbatim>\<open>min_price\<close> comes first.
\<close>

lemma price_condition_partial:
  "price_condition [''min_price'' \<mapsto> VInt lo] =
     (if lo < 0 then Inr True else Inl (InterfaceConversion VNil ''int''))"
  "price_condition [''max_price'' \<mapsto> VInt hi] = Inl (InterfaceConversion VNil ''int'')"
  "price_condition [''min_price'' \<mapsto> VInt lo, ''max_price'' \<mapsto> VInt hi] = Inr (lo < 0 \<or> hi < 0)"
  "price_condition Map.empty = Inr False"
  by (simp_all add: price_condition_def index_def assert_int_def)

text \<open>
  C2. Validation is not total over price bounds. When the user agent, render, page and
  \<^verbatim>\<open>sort_by\<close> checks pass and the context holds a non-negative \<^verbatim>\<open>min_price\<close> but no
  \<^verbatim>\<open>max_price\<close>, or a \<^verbatim>\<open>max_price\<close> but no \<^verbatim>\<open>min_price\<close>, the price condition asserts
  \<^verbatim>\<open>.(int)\<close> on the absent bound, a nil interface: \<^verbatim>\<open>checkParameterValidity\<close> panics
  instead of returning nil or an error.
\<close>

theorem partial_price_bound_panics:
  assumes "IsUserAgentValid e (GoogleShoppingSearchOpts.UserAgent opt)"
    and "GoogleShoppingSearchOpts.Render opt = '''' \<or>
         IsRenderValid e (GoogleShoppingSearchOpts.Render opt)"
    and "0 < GoogleShoppingSearchOpts.Pages opt" and "0 < GoogleShoppingSearchOpts.StartPage opt"
    and "sort_by_condition e c = Inr False"
    and "(\<exists>lo. c ''min_price'' = Some (VInt lo) \<and> 0 \<le> lo \<and> c ''max_price'' = None) \<or>
         (\<exists>hi. c ''min_price'' = None \<and> c ''max_price'' = Some (VInt hi))"
  shows "GoogleShoppingSearchOpts_checkParameterValidity e opt c =
           Inl (InterfaceConversion VNil ''int'')"
  using assms
  by (auto simp: GoogleShoppingSearchOpts_checkParameterValidity_def price_condition_def
      index_def assert_int_def)

theorem partial_price_bound_panics_witness:
  "GoogleShoppingSearchOpts_checkParameterValidity sample_env
     (search_opt sample_env
        [Some (GoogleShoppingSearchOpts_zero \<lparr>GoogleShoppingSearchOpts.Context := [MinPrice 5]\<rparr>)])
     (search_context
        [Some (GoogleShoppingSearchOpts_zero \<lparr>GoogleShoppingSearchOpts.Context := [MinPrice 5]\<rparr>)]) =
     Inl (InterfaceConversion VNil ''int'') \<and>
   ScrapeGoogleShoppingSearchCtx sample_env Background ''shoes''
     [Some (GoogleShoppingSearchOpts_zero \<lparr>GoogleShoppingSearchOpts.Context := [MinPrice 5]\<rparr>)] =
     \<lparr>requests = [], outcome = Inl (Panic (InterfaceConversion VNil ''int''))\<rparr> \<and>
   GoogleShoppingSearchOpts_checkParameterValidity sample_env
     (search_opt sample_env
        [Some (GoogleShoppingSearchOpts_zero \<lparr>GoogleShoppingSearchOpts.Context := [MaxPrice 5]\<rparr>)])
     (search_context
        [Some (GoogleShoppingSearchOpts_zero \<lparr>GoogleShoppingSearchOpts.Context := [MaxPrice 5]\<rparr>)]) =
     Inl (InterfaceConversion VNil ''int'') \<and>
   ScrapeGoogleShoppingSearchCtx sample_env Background ''shoes''
     [Some (GoogleShoppingSearchOpts_zero \<lparr>GoogleShoppingSearchOpts.Context := [MaxPrice 5]\<rparr>)] =
     \<lparr>requests = [], outcome = Inl (Panic (InterfaceConversion VNil ''int''))\<rparr>"
proof -
  have lo: "GoogleShoppingSearchOpts_checkParameterValidity sample_env
     (search_opt sample_env
        [Some (GoogleShoppingSearchOpts_zero \<lparr>GoogleShoppingSearchOpts.Context := [MinPrice 5]\<rparr>)])
     (search_context
        [Some (GoogleShoppingSearchOpts_zero \<lparr>GoogleShoppingSearchOpts.Context := [MinPrice 5]\<rparr>)]) =
     Inl (InterfaceConversion VNil ''int'')"
    by (rule partial_price_bound_panics)
      (simp_all add: search_context_def search_opt_def effective_opt_def
        GoogleShoppingSearchOpts_zero_def sort_by_condition_def assert_string_def index_def
        SetDefaultSortBy_def SetDefaultPages_def SetDefaultDomain_def SetDefaultStartPage_def
        SetDefaultUserAgent_def AcceptedSortByParameters_def sample_env_def MinPrice_def)
  have hi: "GoogleShoppingSearchOpts_checkParameterValidity sample_env
     (search_opt sample_env
        [Some (GoogleShoppingSearchOpts_zero \<lparr>GoogleShoppingSearchOpts.Context := [MaxPrice 5]\<rparr>)])
     (search_context
        [Some (GoogleShoppingSearchOpts_zero \<lparr>GoogleShoppingSearchOpts.Context := [MaxPrice 5]\<rparr>)]) =
     Inl (InterfaceConversion VNil ''int'')"
    by (rule partial_price_bound_panics)
      (simp_all add: search_context_def search_opt_def effective_opt_def
        GoogleShoppingSearchOpts_zero_def sort_by_condition_def assert_string_def index_def
        SetDefaultSortBy_def SetDefaultPages_def SetDefaultDomain_def SetDefaultStartPage_def
        SetDefaultUserAgent_def AcceptedSortByParameters_def sample_env_def MaxPrice_def)
  show ?thesis
    using lo hi
      search_check_panic [OF lo, of Background "''shoes''"]
      search_check_panic [OF hi, of Background "''shoes''"]
    by (auto intro: call.equality)
qed

end
